theory Spec2Isabelle
  imports Main "HOL-Library.Sublist"
begin

section \<open>Go strings and the standard-library calls the program makes\<close>

text \<open>
  A Go string is a sequence of bytes, and \<open>len\<close>, \<open>strings.Replace\<close>, \<open>strings.Split\<close>,
  \<open>strings.Contains\<close>, \<open>strings.HasPrefix\<close> and \<open>strings.HasSuffix\<close> all work on bytes.
  \<^typ>\<open>string\<close> is a list of 8-bit characters, so a string literal of the source that
  holds a character beyond ASCII is written here as its UTF-8 bytes.
\<close>

definition trademark :: string where
  \<comment> \<open>U+2122, the first terminator glyph\<close>
  "trademark = [CHR 0xE2, CHR 0x84, CHR 0xA2]"

definition copyright :: string where
  \<comment> \<open>U+00A9, the second terminator glyph\<close>
  "copyright = [CHR 0xC2, CHR 0xA9]"

definition black_star :: string where
  \<comment> \<open>U+2605, the suffix of the older foil-only duplicates\<close>
  "black_star = [CHR 0xE2, CHR 0x98, CHR 0x85]"

definition narrow_nbsp :: string where
  \<comment> \<open>U+202F, the first literal of \<open>cleanLine\<close> and of \<open>replacerStrings\<close>\<close>
  "narrow_nbsp = [CHR 0xE2, CHR 0x80, CHR 0xAF]"

definition right_single_quote :: string where
  "right_single_quote = [CHR 0xE2, CHR 0x80, CHR 0x99]"

definition left_single_quote :: string where
  "left_single_quote = [CHR 0xE2, CHR 0x80, CHR 0x98]"

definition right_double_quote :: string where
  "right_double_quote = [CHR 0xE2, CHR 0x80, CHR 0x9D]"

definition left_double_quote :: string where
  "left_double_quote = [CHR 0xE2, CHR 0x80, CHR 0x9C]"

definition registered :: string where
  "registered = [CHR 0xC2, CHR 0xAE]"

text \<open>\<open>strings.HasPrefix(s, p)\<close> is \<^term>\<open>prefix p s\<close> and \<open>strings.HasSuffix(s, p)\<close> is
  \<^term>\<open>suffix p s\<close>.\<close>

fun Contains :: "string \<Rightarrow> string \<Rightarrow> bool" where
  "Contains [] sub = (sub = [])"
| "Contains (c # cs) sub = (prefix sub (c # cs) \<or> Contains cs sub)"

text \<open>
  \<open>strings.Replace(s, old, new, n)\<close> replaces the first \<open>n\<close> non-overlapping occurrences
  of \<open>old\<close>, scanning from the left, and all of them when \<open>n < 0\<close>. Every call of the
  program passes a non-empty literal for \<open>old\<close>; for an empty \<open>old\<close> (where Go inserts
  \<open>new\<close> around every rune) the definition below returns \<open>s\<close>, a case no call reaches.
\<close>

function Replace :: "string \<Rightarrow> string \<Rightarrow> string \<Rightarrow> int \<Rightarrow> string" where
  "Replace [] old new n = []"
| "Replace (c # cs) old new n =
     (if n \<noteq> 0 \<and> old \<noteq> [] \<and> prefix old (c # cs)
      then new @ Replace (drop (length old) (c # cs)) old new (n - 1)
      else c # Replace cs old new n)"
  by pat_completeness auto
termination
  by (relation "measure (\<lambda>(s, old, new, n). length s)") (auto simp: Suc_le_eq)

text \<open>
  \<open>strings.Split(s, sep)\<close> for a non-empty \<open>sep\<close> (the only kind the program passes): the
  pieces between the non-overlapping occurrences of \<open>sep\<close>, always at least one piece
  (\<open>Split_not_Nil\<close> below, so the last branch of the \<open>case\<close> is never taken).
\<close>

function Split :: "string \<Rightarrow> string \<Rightarrow> string list" where
  "Split [] sep = [[]]"
| "Split (c # cs) sep =
     (if sep \<noteq> [] \<and> prefix sep (c # cs)
      then [] # Split (drop (length sep) (c # cs)) sep
      else (case Split cs sep of piece # pieces \<Rightarrow> (c # piece) # pieces | [] \<Rightarrow> [[c]]))"
  by pat_completeness auto
termination
  by (relation "measure (\<lambda>(s, sep). length s)") (auto simp: Suc_le_eq)

lemma Split_not_Nil: "Split s sep \<noteq> []"
  by (induction s sep rule: Split.induct) (auto split: list.splits)

text \<open>
  White space as \<open>unicode.IsSpace\<close> defines it, each rune as its UTF-8 bytes: the six ASCII
  ones, U+0085, U+00A0, U+1680, U+2000 to U+200A, U+2028, U+2029, U+202F, U+205F and
  U+3000. No encoding is a prefix of another and each starts with a byte that is no
  continuation byte, so a match on bytes is a match on the decoded rune, at the front
  (\<open>DecodeRuneInString\<close>) and at the back (\<open>DecodeLastRuneInString\<close>).
\<close>

definition space_runes :: "string list" where
  "space_runes =
    [[CHR 0x09], [CHR 0x0A], [CHR 0x0B], [CHR 0x0C], [CHR 0x0D], [CHR 0x20],
     [CHR 0xC2, CHR 0x85], [CHR 0xC2, CHR 0xA0],
     [CHR 0xE1, CHR 0x9A, CHR 0x80],
     [CHR 0xE2, CHR 0x80, CHR 0x80], [CHR 0xE2, CHR 0x80, CHR 0x81],
     [CHR 0xE2, CHR 0x80, CHR 0x82], [CHR 0xE2, CHR 0x80, CHR 0x83],
     [CHR 0xE2, CHR 0x80, CHR 0x84], [CHR 0xE2, CHR 0x80, CHR 0x85],
     [CHR 0xE2, CHR 0x80, CHR 0x86], [CHR 0xE2, CHR 0x80, CHR 0x87],
     [CHR 0xE2, CHR 0x80, CHR 0x88], [CHR 0xE2, CHR 0x80, CHR 0x89],
     [CHR 0xE2, CHR 0x80, CHR 0x8A],
     [CHR 0xE2, CHR 0x80, CHR 0xA8], [CHR 0xE2, CHR 0x80, CHR 0xA9],
     [CHR 0xE2, CHR 0x80, CHR 0xAF],
     [CHR 0xE2, CHR 0x81, CHR 0x9F],
     [CHR 0xE3, CHR 0x80, CHR 0x80]]"

definition leading_space :: "string \<Rightarrow> nat" where
  \<comment> \<open>the width in bytes of the white-space rune \<open>s\<close> starts with, 0 when it starts with none\<close>
  "leading_space s = (case find (\<lambda>r. prefix r s) space_runes of None \<Rightarrow> 0 | Some r \<Rightarrow> length r)"

definition trailing_space :: "string \<Rightarrow> nat" where
  "trailing_space s = (case find (\<lambda>r. suffix r s) space_runes of None \<Rightarrow> 0 | Some r \<Rightarrow> length r)"

lemma find_Some_holds: "find P xs = Some x \<Longrightarrow> P x \<and> x \<in> set xs"
  by (induction xs) (auto split: if_splits)

lemma leading_space_le: "leading_space s \<le> length s"
  by (auto simp: leading_space_def prefix_length_le split: option.splits dest!: find_Some_holds)

lemma trailing_space_le: "trailing_space s \<le> length s"
  by (auto simp: trailing_space_def suffix_length_le split: option.splits dest!: find_Some_holds)

function trim_left_space :: "string \<Rightarrow> string" where
  "trim_left_space s =
     (if 0 < leading_space s then trim_left_space (drop (leading_space s) s) else s)"
  by pat_completeness auto
termination
proof (relation "measure length")
  fix s :: string
  assume "0 < leading_space s"
  with leading_space_le [of s] show "(drop (leading_space s) s, s) \<in> measure length"
    by (cases s) auto
qed simp

function trim_right_space :: "string \<Rightarrow> string" where
  "trim_right_space s =
     (if 0 < trailing_space s
      then trim_right_space (take (length s - trailing_space s) s) else s)"
  by pat_completeness auto
termination
proof (relation "measure length")
  fix s :: string
  assume "0 < trailing_space s"
  with trailing_space_le [of s]
  show "(take (length s - trailing_space s) s, s) \<in> measure length"
    by (cases s) auto
qed simp

definition TrimSpace :: "string \<Rightarrow> string" where
  "TrimSpace s = trim_right_space (trim_left_space s)"

text \<open>\<open>strings.Fields\<close>: the maximal runs of bytes between white-space runes.\<close>

function fields_from :: "string \<Rightarrow> string \<Rightarrow> string list" where
  "fields_from cur [] = (if cur = [] then [] else [rev cur])"
| "fields_from cur (c # cs) =
     (if 0 < leading_space (c # cs)
      then (if cur = [] then [] else [rev cur])
             @ fields_from [] (drop (leading_space (c # cs)) (c # cs))
      else fields_from (c # cur) cs)"
  by pat_completeness auto
termination
  by (relation "measure (\<lambda>(cur, s). length s)") auto

definition Fields :: "string \<Rightarrow> string list" where
  "Fields s = fields_from [] s"

text \<open>\<open>strings.TrimLeft\<close> and \<open>strings.TrimRight\<close> with a cutset of one ASCII byte.\<close>

definition TrimLeft :: "string \<Rightarrow> char \<Rightarrow> string" where
  "TrimLeft s c = dropWhile (\<lambda>x. x = c) s"

definition TrimRight :: "string \<Rightarrow> char \<Rightarrow> string" where
  "TrimRight s c = rev (dropWhile (\<lambda>x. x = c) (rev s))"

text \<open>
  \<open>strings.ToLower\<close> maps \<open>A\<close> to \<open>Z\<close> onto \<open>a\<close> to \<open>z\<close> when the string is all ASCII. On any
  other string it maps every rune through the Unicode case tables, which this
  development does not hold: they are the parameter \<open>U\<close> of every function that lowers a
  string the program does not control.
\<close>

definition lower_byte :: "char \<Rightarrow> char" where
  "lower_byte c =
     (if 65 \<le> (of_char c :: nat) \<and> (of_char c :: nat) \<le> 90 then char_of (of_char c + 32 :: nat) else c)"

definition ToLower :: "(string \<Rightarrow> string) \<Rightarrow> string \<Rightarrow> string" where
  "ToLower U s = (if list_all (\<lambda>c. (of_char c :: nat) < 128) s then map lower_byte s else U s)"

section \<open>Integers\<close>

text \<open>
  Go's \<open>int\<close> is taken to be 64 bits wide, as on every 64-bit platform. Values are
  \<^typ>\<open>int\<close> here and the wrap-around of \<open>+\<close> and \<open>-\<close> is written out.
\<close>

definition wrap64 :: "int \<Rightarrow> int" where
  "wrap64 x = (x + 2 ^ 63) mod 2 ^ 64 - 2 ^ 63"

definition int_add :: "int \<Rightarrow> int \<Rightarrow> int" where
  "int_add a b = wrap64 (a + b)"

definition int_sub :: "int \<Rightarrow> int \<Rightarrow> int" where
  "int_sub a b = wrap64 (a - b)"

definition int_quo :: "int \<Rightarrow> int \<Rightarrow> int" where
  \<comment> \<open>Go's \<open>/\<close> truncates towards zero; the program only divides by 2\<close>
  "int_quo a b = wrap64 (sgn a * sgn b * (\<bar>a\<bar> div \<bar>b\<bar>))"

datatype num_error = ErrSyntax | ErrRange

definition is_digit :: "char \<Rightarrow> bool" where
  "is_digit c = (48 \<le> (of_char c :: nat) \<and> (of_char c :: nat) \<le> 57)"

definition digit_val :: "char \<Rightarrow> nat" where
  "digit_val c = of_char c - 48"

definition maxUint64 :: nat where
  "maxUint64 = 2 ^ 64 - 1"

text \<open>
  The loop of \<open>strconv.ParseUint(s, 10, 64)\<close>: it stops with a syntax error at the first
  byte that is no digit and with a range error as soon as the value leaves 64 bits,
  whichever comes first.
\<close>

fun ParseUint_loop :: "nat \<Rightarrow> string \<Rightarrow> nat \<times> num_error option" where
  "ParseUint_loop n [] = (n, None)"
| "ParseUint_loop n (c # cs) =
     (if \<not> is_digit c then (0, Some ErrSyntax)
      else if maxUint64 div 10 + 1 \<le> n then (maxUint64, Some ErrRange)
      else if maxUint64 < n * 10 + digit_val c then (maxUint64, Some ErrRange)
      else ParseUint_loop (n * 10 + digit_val c) cs)"

definition ParseUint :: "string \<Rightarrow> nat \<times> num_error option" where
  "ParseUint s = (if s = [] then (0, Some ErrSyntax) else ParseUint_loop 0 s)"

definition ParseInt :: "string \<Rightarrow> int \<times> num_error option" where
  "ParseInt s0 =
    (if s0 = [] then (0, Some ErrSyntax)
     else
       (let neg = (hd s0 = CHR ''-'');
            s = (if hd s0 = CHR ''+'' \<or> hd s0 = CHR ''-'' then tl s0 else s0)
        in case ParseUint s of
             (un, Some ErrSyntax) \<Rightarrow> (0, Some ErrSyntax)
           | (un, _) \<Rightarrow>
               if \<not> neg \<and> 2 ^ 63 \<le> un then (2 ^ 63 - 1, Some ErrRange)
               else if neg \<and> 2 ^ 63 < un then (- (2 ^ 63), Some ErrRange)
               else (if neg then - int un else int un, None)))"

fun Atoi_fast_loop :: "nat \<Rightarrow> string \<Rightarrow> nat option" where
  "Atoi_fast_loop n [] = Some n"
| "Atoi_fast_loop n (c # cs) =
     (if \<not> is_digit c then None else Atoi_fast_loop (n * 10 + digit_val c) cs)"

text \<open>
  \<open>strconv.Atoi\<close>: the value and the error. On a syntax error the value is 0, on a
  range error it is the nearest bound of \<open>int\<close>. Strings of fewer than 19 bytes take the
  fast path, which cannot overflow.
\<close>

definition Atoi :: "string \<Rightarrow> int \<times> num_error option" where
  "Atoi s0 =
    (if 0 < length s0 \<and> length s0 < 19
     then
       (let s = (if hd s0 = CHR ''-'' \<or> hd s0 = CHR ''+'' then tl s0 else s0)
        in if s = [] then (0, Some ErrSyntax)
           else case Atoi_fast_loop 0 s of
                  None \<Rightarrow> (0, Some ErrSyntax)
                | Some n \<Rightarrow> (if hd s0 = CHR ''-'' then - int n else int n, None))
     else ParseInt s0)"

text \<open>\<open>fmt.Sprint\<close> of an \<open>int\<close>: decimal digits, a minus sign in front of a negative value.\<close>

definition digit_char :: "nat \<Rightarrow> char" where
  "digit_char d = ''0123456789'' ! d"

function nat_digits :: "nat \<Rightarrow> string" where
  "nat_digits n = (if n < 10 then [digit_char n] else nat_digits (n div 10) @ [digit_char (n mod 10)])"
  by pat_completeness auto
termination
  by (relation "measure id") auto

definition Sprint :: "int \<Rightarrow> string" where
  "Sprint i = (if i < 0 then CHR ''-'' # nat_digits (nat (- i)) else nat_digits (nat i))"

section \<open>Titles\<close>

text \<open>
  \<open>strings.NewReplacer(replacerStrings...)\<close>: at each position of the input, from the
  left, the first pair in argument order whose old string starts there is applied and
  the scan goes on behind the match; where no pair matches, one byte is copied.
\<close>

definition replacerStrings :: "(string \<times> string) list" where
  "replacerStrings =
    [(narrow_nbsp, '' ''),
     (right_single_quote, [CHR 0x27]),
     (left_single_quote, [CHR 0x27]),
     (registered, ''''),
     (trademark, ''''),
     (''<'', ''''),
     (''>'', ''''),
     (''/'', ''''),
     ([CHR 0x5C], ''''),
     (''*'', ''''),
     ('' - '', '' ''),
     (''Regular'', ''''),
     (''DD '', ''''),
     (''Secret Lair x '', ''''),
     (''(English)'', ''''),
     (''English'', ''''),
     ('' EN'', ''''),
     (''   '', '' ''),
     (''  '', '' '')]"

function replacer_Replace :: "(string \<times> string) list \<Rightarrow> string \<Rightarrow> string" where
  "replacer_Replace oldnew [] = []"
| "replacer_Replace oldnew (c # cs) =
     (case find (\<lambda>(old, new). old \<noteq> [] \<and> prefix old (c # cs)) oldnew of
        None \<Rightarrow> c # replacer_Replace oldnew cs
      | Some (old, new) \<Rightarrow> new @ replacer_Replace oldnew (drop (length old) (c # cs)))"
  by pat_completeness auto
termination
proof (relation "measure (\<lambda>(oldnew, s). length s)")
  fix oldnew :: "(string \<times> string) list" and c :: char and cs x2 x y
  assume "find (\<lambda>(old, new). old \<noteq> [] \<and> prefix old (c # cs)) oldnew = Some x2"
    and "(x, y) = x2"
  then have "x \<noteq> []"
    by (auto dest!: find_Some_holds)
  then show "((oldnew, drop (length x) (c # cs)), oldnew, c # cs)
      \<in> measure (\<lambda>(oldnew, s). length s)"
    by (cases x) auto
qed auto

definition cleanTitle :: "string \<Rightarrow> string \<times> string" where
  "cleanTitle title0 =
    (let title1 =
           (if Contains title0 ''|''
            then (let t = hd (Split title0 '' | '')
                  in if suffix ''Foil Edition'' title0 then t @ '' Foil Edition'' else t)
            else title0);
         title2 = replacer_Replace replacerStrings title1;
         title3 = (if \<not> Contains title2 ''High''
                   then Replace title2 ''Secret Lair '' '''' 1 else title2);
         title4 = Replace title3 ''S.P.E.C.I.A.L.'' ''SPECIAL'' 1;
         title5 = (if suffix ''Foil'' title4 then title4 @ '' Edition'' else title4);
         originalName = TrimSpace title5;
         title6 = Replace title5 '':'' ''-'' (- 1);
         filename = TrimSpace title6
     in (filename, originalName))"

section \<open>Card lines\<close>

record CardData =
  Name :: string
  Number :: string
  Foil :: bool
  Etched :: bool
  Token :: bool

datatype line_error = UnexpectedLineFormat | InvalidNumberInLine

text \<open>
  \<open>cleanLine\<close>, block by block. The first block (lines 96 to 100 of \<open>main.go\<close>) replaces
  four Unicode characters and trims the line.
\<close>

definition normalize_line :: "string \<Rightarrow> string" where
  "normalize_line cardLine =
     TrimSpace
       (Replace
         (Replace
           (Replace
             (Replace cardLine narrow_nbsp '' '' (- 1))
             right_single_quote [CHR 0x27] (- 1))
           right_double_quote [CHR 0x22] (- 1))
         left_double_quote [CHR 0x22] (- 1))"

definition drop_parenthesis :: "string \<Rightarrow> string" where
  \<comment> \<open>Remove anything appearing after a parenthesis\<close>
  "drop_parenthesis cardLine =
     (if Contains cardLine ''('' then hd (Split cardLine ''('') else cardLine)"

text \<open>
  \<open>fields[1]\<close> of the split at \<open>Foil\<close> is read only when the line contains \<open>Foil\<close>, so the
  split has at least two pieces and the index is in range.
\<close>

definition drop_before_foil :: "string \<Rightarrow> string" where
  "drop_before_foil cardLine =
     (if Contains cardLine ''Foil'' \<and> \<not> suffix ''Foil Edition'' cardLine
         \<and> \<not> suffix ''Foil Etched'' cardLine
      then Split cardLine ''Foil'' ! 1 else cardLine)"

definition drop_phyrexian :: "string \<Rightarrow> string" where
  "drop_phyrexian cardLine =
     (if \<not> Contains cardLine ''Tower'' \<and> \<not> Contains cardLine ''Crusader''
         \<and> \<not> Contains cardLine ''Unlife''
      then Replace cardLine ''Phyrexian'' [] (- 1) else cardLine)"

definition tags :: "string list" where
  "tags =
    [''Full-Text'', ''Full-Art'', ''Full-art'', ''Alt-Art'',
     ''Reversible'', ''Old Frame'', ''Retro Frame'',
     ''Poster'', ''Stained Glass'',
     ''Foil-etched'', ''Etched'', ''Foil'', ''Tokens'', ''Token'',
     ''Different'', ''Hand-Drawn'', ''Borderless'',
     ''Showcase'', ''Left-Handed'', ''Edition'', ''cards'', ''Japanese'',
     ''Regular Human Guy'', ''Ichor-E'', ''DFC'', ''Italian-language'', ''*'']"

definition remove_tag :: "(string \<Rightarrow> string) \<Rightarrow> string \<Rightarrow> string \<Rightarrow> string" where
  \<comment> \<open>the body of the loop over the tags\<close>
  "remove_tag U cardLine tag =
     Replace (Replace cardLine tag [] (- 1)) (ToLower U tag) [] (- 1)"

definition remove_tags :: "(string \<Rightarrow> string) \<Rightarrow> string \<Rightarrow> string" where
  \<comment> \<open>Remove random prefixes from card names\<close>
  "remove_tags U cardLine = foldl (remove_tag U) cardLine tags"

definition cut_at :: "string \<Rightarrow> string \<Rightarrow> string" where
  "cut_at cardLine sep = (if Contains cardLine sep then hd (Split cardLine sep) else cardLine)"

definition standardize_dfc :: "string \<Rightarrow> string" where
  "standardize_dfc cardLine =
     (if Contains cardLine ''//'' \<and> \<not> Contains cardLine '' // ''
      then Replace cardLine ''//'' '' // '' (- 1) else cardLine)"

definition clean_name :: "(string \<Rightarrow> string) \<Rightarrow> string \<Rightarrow> string" where
  \<comment> \<open>lines 113 to 176: from the text behind the count to the returned name\<close>
  "clean_name U cardLine =
     TrimSpace
       (Replace
         (Replace
           (hd (Split
             (standardize_dfc
               (cut_at (cut_at (cut_at
                 (remove_tags U (drop_phyrexian (drop_before_foil (drop_parenthesis cardLine))))
                 '' as '') '' by '') '' with art''))
             '' // ''))
           ''Sticker Sheets'' ''Sticker sheet'' (- 1))
         ''Xenegos'' ''Xenagos'' (- 1))"

definition cleanLine :: "(string \<Rightarrow> string) \<Rightarrow> string \<Rightarrow> line_error + string \<times> int" where
  "cleanLine U cardLine =
     (case Split (normalize_line cardLine) ''x '' of
        [count, rest] \<Rightarrow>
          (case Atoi count of
             (num, Some err) \<Rightarrow> Inl InvalidNumberInLine
           | (num, None) \<Rightarrow> Inr (clean_name U (TrimSpace rest), num))
      | _ \<Rightarrow> Inl UnexpectedLineFormat)"

text \<open>
  The callback of \<open>scrapeProduct\<close> for one listing line: a line that \<open>cleanLine\<close> refuses
  adds nothing; otherwise the loop \<open>for i := 0; i < num; i++\<close> appends copies of one
  card and stops after the first copy when the page title holds \<open>Astrology Lands\<close>.
\<close>

definition card_of_line :: "(string \<Rightarrow> string) \<Rightarrow> string \<Rightarrow> string \<Rightarrow> CardData" where
  "card_of_line U line cardLine =
     \<lparr>Name = cardLine, Number = [],
      Foil = Contains (ToLower U line) ''foil'',
      Etched = Contains (ToLower U line) ''etched'',
      Token = Contains (ToLower U line) ''token''\<rparr>"

fun append_copies :: "bool \<Rightarrow> nat \<Rightarrow> CardData \<Rightarrow> CardData list \<Rightarrow> CardData list" where
  "append_copies stop 0 item cards = cards"
| "append_copies stop (Suc k) item cards =
     (if stop then cards @ [item] else append_copies stop k item (cards @ [item]))"

definition add_line ::
  "(string \<Rightarrow> string) \<Rightarrow> string \<Rightarrow> CardData list \<Rightarrow> string \<Rightarrow> CardData list" where
  "add_line U title cards line =
     (case cleanLine U line of
        Inl err \<Rightarrow> cards
      | Inr (cardLine, num) \<Rightarrow>
          append_copies (Contains title ''Astrology Lands'') (nat num)
            (card_of_line U line cardLine) cards)"

datatype scrape_error = NoCardsFound | IndexOutOfRange

definition collect_cards ::
  "(string \<Rightarrow> string) \<Rightarrow> string \<Rightarrow> string list \<Rightarrow> string \<Rightarrow> scrape_error + CardData list" where
  \<comment> \<open>the bullet points first, the lines of the product information as the fallback\<close>
  "collect_cards U title bullets productInfo =
     (let cards = foldl (add_line U title) [] bullets
      in if cards \<noteq> [] then Inr cards
         else (let cards2 = foldl (add_line U title) [] (Split productInfo ''<br/>'')
               in if cards2 = [] then Inl NoCardsFound else Inr cards2))"

section \<open>Numbers from the images\<close>

fun extractNumber :: "string list \<Rightarrow> nat \<Rightarrow> string" where
  "extractNumber [] minLen = []"
| "extractNumber (field # rest) minLen =
     (if field = trademark \<or> field = copyright then []
      else if minLen < length field \<and> snd (Atoi field) = None then field
      else extractNumber rest minLen)"

definition number_of_text :: "string \<Rightarrow> string" where
  \<comment> \<open>lines 70 to 76 of \<open>getNumberFromLink\<close>\<close>
  "number_of_text text =
     (let num = extractNumber (Fields text) 3
      in if num = [] then extractNumber (Fields text) 2 else num)"

text \<open>
  Fetching the image and recognising its text are outside the program: \<open>ocr\<close> maps a
  link to the recognised text, \<open>None\<close> when the fetch or the recognition fails.
\<close>

definition getNumberFromLink :: "(string \<Rightarrow> string option) \<Rightarrow> string \<Rightarrow> string option" where
  "getNumberFromLink ocr link = map_option number_of_text (ocr link)"

text \<open>
  The fold-mode flag. \<open>fields[len(fields)-1]\<close> panics on an empty slice, written as
  \<open>None\<close>.
\<close>

definition fold_mode :: "string \<Rightarrow> nat \<Rightarrow> bool option" where
  "fold_mode galleryTitle ncards =
     (if Contains galleryTitle '' (''
      then (case Fields galleryTitle of
              [] \<Rightarrow> None
            | f # fs \<Rightarrow>
                Some (int_quo
                        (fst (Atoi (TrimRight (TrimLeft (last (f # fs)) (CHR ''('')) (CHR '')''))))
                        2 = int ncards))
      else Some False)"

text \<open>
  The callback over the gallery links, \<open>idx\<close> being the index \<open>EachWithBreak\<close> passes; an
  image is its \<open>href\<close> attribute, \<open>None\<close> when it has none.
\<close>

fun image_pass ::
  "(string \<Rightarrow> string option) \<Rightarrow> bool \<Rightarrow> nat \<Rightarrow> string option list
     \<Rightarrow> CardData list \<Rightarrow> CardData list" where
  "image_pass ocr foldMode idx [] cards = cards"
| "image_pass ocr foldMode idx (img # imgs) cards =
     (let i = (if foldMode then idx div 2 else idx)
      in if length cards \<le> i then cards
         else if Number (cards ! i) \<noteq> [] then image_pass ocr foldMode (Suc idx) imgs cards
         else (case img of
                 None \<Rightarrow> image_pass ocr foldMode (Suc idx) imgs cards
               | Some href \<Rightarrow>
                   (case getNumberFromLink ocr
                           (if prefix ''/'' href then ''https://secretlair.wizards.com'' @ href
                            else href) of
                      None \<Rightarrow> image_pass ocr foldMode (Suc idx) imgs cards
                    | Some num \<Rightarrow>
                        image_pass ocr foldMode (Suc idx) imgs
                          (cards[i := (cards ! i)\<lparr>Number := num\<rparr>]))))"

section \<open>Backfill\<close>

fun find_longest :: "nat \<Rightarrow> CardData list \<Rightarrow> string \<times> int \<Rightarrow> string \<times> int" where
  "find_longest i [] (num, pos) = (num, pos)"
| "find_longest i (item # cards) (num, pos) =
     find_longest (Suc i) cards
       (if Number item \<noteq> [] \<and> length num < length (Number item)
        then (Number item, int i) else (num, pos))"

fun renumber :: "int \<Rightarrow> int \<Rightarrow> nat \<Rightarrow> CardData list \<Rightarrow> CardData list" where
  "renumber cn pos j [] = []"
| "renumber cn pos j (item # cards) =
     item\<lparr>Number := Sprint (int_sub (int_add cn (int j)) pos)\<rparr> # renumber cn pos (Suc j) cards"

definition backfill :: "CardData list \<Rightarrow> CardData list" where
  "backfill cards =
     (if length (filter (\<lambda>item. Number item \<noteq> []) cards) \<noteq> length cards
      then (case find_longest 0 cards ([], - 1) of
              (num, pos) \<Rightarrow>
                if num \<noteq> []
                then (if 0 < fst (Atoi (TrimLeft num (CHR ''0'')))
                      then renumber (fst (Atoi (TrimLeft num (CHR ''0'')))) pos 0 cards
                      else cards)
                else cards)
      else cards)"

definition resolve_numbers ::
  "(string \<Rightarrow> string option) \<Rightarrow> bool \<Rightarrow> string \<Rightarrow> string option list \<Rightarrow> CardData list
     \<Rightarrow> scrape_error + CardData list" where
  \<comment> \<open>lines 346 to 429: the image pass when \<open>doOCR\<close> is set, then the backfill\<close>
  "resolve_numbers ocr doOCR galleryTitle images cards =
     (if doOCR
      then (case fold_mode galleryTitle (length cards) of
              None \<Rightarrow> Inl IndexOutOfRange
            | Some foldMode \<Rightarrow> Inr (backfill (image_pass ocr foldMode 0 images cards)))
      else Inr (backfill cards))"

section \<open>Records of the catalogue\<close>

record scryfall_Card =
  card_Name :: string
  card_CollectorNumber :: string
  card_CardFaces :: "string list"
  card_TypeLine :: string
  card_PromoTypes :: "string list"

text \<open>The loop of \<open>search\<close> over the cards the query returned, \<open>out\<close> being the slice built.\<close>

fun search_loop :: "scryfall_Card list \<Rightarrow> CardData list \<Rightarrow> CardData list" where
  "search_loop [] out = out"
| "search_loop (item # cards) out =
     (if ''sldbonus'' \<in> set (card_PromoTypes item) then search_loop cards out
      else if suffix black_star (card_CollectorNumber item) then search_loop cards out
      else search_loop cards
             (out @
              [\<lparr>Name = hd (Split (card_Name item) '' // ''),
                Number = (if 0 < length (card_CardFaces item)
                          then card_CollectorNumber item @ ''a''
                          else card_CollectorNumber item),
                Foil = False, Etched = False,
                Token = Contains (card_TypeLine item) ''Token''\<rparr>]))"

definition search ::
  "(string \<Rightarrow> scryfall_Card list option) \<Rightarrow> string \<Rightarrow> CardData list option" where
  \<comment> \<open>\<open>client\<close> is \<open>SearchCards\<close> of the catalogue's client, \<open>None\<close> when it fails\<close>
  "search client query = map_option (\<lambda>cards. search_loop cards []) (client query)"

section \<open>Titles: the specified example\<close>

text \<open>
  C8. The title \<open>Secret Lair Drop: Heads I Win | Foil Edition\<close> gives the file name
  \<open>Drop- Heads I Win Foil Edition\<close> and the display title
  \<open>Drop: Heads I Win Foil Edition\<close>.
\<close>

theorem cleanTitle_heads_i_win:
  "cleanTitle ''Secret Lair Drop: Heads I Win | Foil Edition'' =
     (''Drop- Heads I Win Foil Edition'', ''Drop: Heads I Win Foil Edition'')"
  by code_simp

end
